theory Spec2Isabelle
  imports Main
begin

section \<open>Values exchanged with the libraries\<close>

text \<open>
  The application is request/response glue over Mongoose (a document store), the
  jsonwebtoken library and Express. The handlers are embedded function by function; what
  the libraries do is written out only as far as the handlers observe it:
  \<^item> an ObjectId is an opaque value (\<open>oid\<close>); casting a string to an ObjectId either
    gives one or throws \<open>CastError\<close>, and which strings are castable is the driver's
    business, so the cast is a parameter (\<open>castObjectId\<close> of the environment);
  \<^item> a thrown JavaScript error is a value of \<open>js_error\<close>, and \<open>error.name\<close> is
    \<open>error_name\<close>;
  \<^item> the collections are lists of documents in insertion order; the store itself is
    reliable (no network failure is modelled), so the only errors a store call throws are
    \<open>CastError\<close> (query casting) and \<open>ValidationError\<close> (schema validation on save);
  \<^item> request bodies are read at the type the interface gives them: \<open>title\<close> and
    \<open>description\<close> are absent (\<open>None\<close>, JavaScript's \<open>undefined\<close>) or strings,
    \<open>completed\<close> is absent or a boolean.
\<close>

type_synonym oid = nat

datatype js_error =
    CastError
  | ValidationError
  | JsonWebTokenError
  | TokenExpiredError
  | NotBeforeError

fun error_name :: "js_error \<Rightarrow> string" where
  "error_name CastError = ''CastError''"
| "error_name ValidationError = ''ValidationError''"
| "error_name JsonWebTokenError = ''JsonWebTokenError''"
| "error_name TokenExpiredError = ''TokenExpiredError''"
| "error_name NotBeforeError = ''NotBeforeError''"

text \<open>
  The Todo document of \<open>todoSchema\<close>: \<open>title\<close> (String, required), \<open>description\<close>
  (String, default \<open>''\<close>), \<open>read\<close> and \<open>completed\<close> (Boolean, default false),
  \<open>user\<close> (ObjectId, required), and the two fields of \<open>timestamps: true\<close>.
  \<open>todo_id\<close> is the document's \<open>_id\<close>.
\<close>

record todo =
  todo_id :: oid
  title :: string
  description :: string
  read :: bool
  completed :: bool
  user :: oid
  createdAt :: nat
  updatedAt :: nat

text \<open>
  Modelled from the spec: the User model (\<open>models/user\<close>) is not among the sources. A
  user has an identifier and a username; the password hash is left out, as the
  middlewares strip it with \<open>select('-password')\<close>.
\<close>

record user_doc =
  user_id :: oid
  username :: string

text \<open>
  The payload of an identity token, as \<open>jwt.sign({ id: user._id, username })\<close> writes
  it: the id travels as a string.
\<close>

record claims =
  claim_id :: string
  claim_username :: string

text \<open>The fields a handler destructures from \<open>req.body\<close>.\<close>

record todo_input =
  in_title :: "string option"
  in_description :: "string option"
  in_completed :: "bool option"

datatype json =
    JError string
  | JMessage string
  | JTodo todo
  | JTodos "todo list"
  | JSuccess

record response =
  status :: nat
  body :: json

text \<open>\<open>res.status(n).json(j)\<close>; \<open>res.json(j)\<close> alone answers with status 200.\<close>

definition res_status_json :: "nat \<Rightarrow> json \<Rightarrow> response" where
  "res_status_json n j = \<lparr>status = n, body = j\<rparr>"

definition res_json :: "json \<Rightarrow> response" where
  "res_json j = res_status_json 200 j"

text \<open>
  The state of the store: both collections, and the source of fresh ObjectIds. The
  driver generates identifiers that do not repeat; a counter stands for that.
\<close>

record world =
  todos :: "todo list"
  users :: "user_doc list"
  next_oid :: oid

text \<open>
  What the outside fixes for one request: the driver's ObjectId cast, the verdict of
  \<open>jwt.verify\<close> on a token string under the configured secret at this moment, and the
  clock.
\<close>

datatype jwt_result =
    Malformed
  | InvalidSignature
  | Expired
  | NotActive
  | Verified claims

record env =
  castObjectId :: "string \<Rightarrow> oid option"
  jwt_check :: "string \<Rightarrow> jwt_result"
  now :: nat

text \<open>
  jsonwebtoken throws \<open>JsonWebTokenError\<close> for a malformed token or a bad signature,
  \<open>TokenExpiredError\<close> past \<open>exp\<close>, \<open>NotBeforeError\<close> before \<open>nbf\<close>, and
  otherwise returns the payload.
\<close>

definition jwt_verify :: "env \<Rightarrow> string \<Rightarrow> js_error + claims" where
  "jwt_verify e token =
     (case jwt_check e token of
        Malformed \<Rightarrow> Inl JsonWebTokenError
      | InvalidSignature \<Rightarrow> Inl JsonWebTokenError
      | Expired \<Rightarrow> Inl TokenExpiredError
      | NotActive \<Rightarrow> Inl NotBeforeError
      | Verified decoded \<Rightarrow> Inr decoded)"

section \<open>The Todo model on the store\<close>

text \<open>
  A query filter is cast before it runs: a value that is no ObjectId makes the query
  throw \<open>CastError\<close>. The arguments are the filter's values after the cast attempt.
\<close>

definition Todo_find :: "todo list \<Rightarrow> oid option \<Rightarrow> js_error + todo list" where
  "Todo_find ts uo =
     (case uo of
        None \<Rightarrow> Inl CastError
      | Some u \<Rightarrow> Inr (rev (sort_key createdAt (filter (\<lambda>t. user t = u) ts))))"

definition Todo_findOne :: "todo list \<Rightarrow> oid option \<Rightarrow> oid option \<Rightarrow> js_error + todo option" where
  "Todo_findOne ts io uo =
     (case io of
        None \<Rightarrow> Inl CastError
      | Some i \<Rightarrow>
          (case uo of
             None \<Rightarrow> Inl CastError
           | Some u \<Rightarrow> Inr (find (\<lambda>t. todo_id t = i \<and> user t = u) ts)))"

fun deleteFirst :: "(todo \<Rightarrow> bool) \<Rightarrow> todo list \<Rightarrow> todo list" where
  "deleteFirst P [] = []"
| "deleteFirst P (t # ts) = (if P t then ts else t # deleteFirst P ts)"

definition Todo_findOneAndDelete ::
  "todo list \<Rightarrow> oid option \<Rightarrow> oid option \<Rightarrow> js_error + (todo option \<times> todo list)" where
  "Todo_findOneAndDelete ts io uo =
     (case io of
        None \<Rightarrow> Inl CastError
      | Some i \<Rightarrow>
          (case uo of
             None \<Rightarrow> Inl CastError
           | Some u \<Rightarrow>
               Inr (find (\<lambda>t. todo_id t = i \<and> user t = u) ts,
                    deleteFirst (\<lambda>t. todo_id t = i \<and> user t = u) ts)))"

text \<open>
  \<open>new Todo({...})\<close> followed by \<open>save()\<close>: the document gets a fresh \<open>_id\<close>, is
  validated against the schema (a required string must be non-empty, the owner must be an
  ObjectId) and inserted with both timestamps set to the time of the save.
\<close>

definition Todo_create ::
  "world \<Rightarrow> nat \<Rightarrow> string \<Rightarrow> string \<Rightarrow> oid option \<Rightarrow> js_error + (todo \<times> world)" where
  "Todo_create w t ttl desc uo =
     (case uo of
        None \<Rightarrow> Inl ValidationError
      | Some u \<Rightarrow>
          if ttl = [] then Inl ValidationError
          else
            (let d = \<lparr>todo_id = next_oid w, title = ttl, description = desc, read = False,
                       completed = False, user = u, createdAt = t, updatedAt = t\<rparr>
             in Inr (d, w\<lparr>todos := todos w @ [d], next_oid := Suc (next_oid w)\<rparr>)))"

text \<open>
  \<open>save()\<close> on a document read from the store: \<open>orig\<close> is the document as it was
  read, \<open>d\<close> as the handler left it. A path assigned its old value is not modified.
  Validation runs on the modified paths, so an empty title is refused when the title was
  changed to it. With nothing modified nothing is written; otherwise the stored document
  with this \<open>_id\<close> is replaced (\<open>updateOne\<close>) and \<open>updatedAt\<close> is set.
\<close>

fun updateOne :: "oid \<Rightarrow> todo \<Rightarrow> todo list \<Rightarrow> todo list" where
  "updateOne i d [] = []"
| "updateOne i d (t # ts) = (if todo_id t = i then d # ts else t # updateOne i d ts)"

definition Todo_save :: "world \<Rightarrow> nat \<Rightarrow> todo \<Rightarrow> todo \<Rightarrow> js_error + (todo \<times> world)" where
  "Todo_save w t orig d =
     (if title d \<noteq> title orig \<and> title d = [] then Inl ValidationError
      else if d = orig then Inr (d, w)
      else
        (let d' = d\<lparr>updatedAt := t\<rparr>
         in Inr (d', w\<lparr>todos := updateOne (todo_id d) d' (todos w)\<rparr>)))"

section \<open>The API controllers\<close>

text \<open>
  Each controller takes the environment, the store, \<open>req.user\<close> (the token payload the
  \<open>auth\<close> middleware attached) and its own parameters, and returns the response and the store after it.
\<close>

definition getTodos :: "env \<Rightarrow> world \<Rightarrow> claims \<Rightarrow> response \<times> world" where
  "getTodos e w u =
     (case Todo_find (todos w) (castObjectId e (claim_id u)) of
        Inr ts \<Rightarrow> (res_json (JTodos ts), w)
      | Inl err \<Rightarrow> (res_status_json 500 (JError ''Server error''), w))"

definition createTodo :: "env \<Rightarrow> world \<Rightarrow> claims \<Rightarrow> todo_input \<Rightarrow> response \<times> world" where
  "createTodo e w u b =
     (case in_title b of
        None \<Rightarrow> (res_status_json 400 (JError ''Title is required''), w)
      | Some ttl \<Rightarrow>
          if ttl = [] then (res_status_json 400 (JError ''Title is required''), w)
          else
            (let desc = (case in_description b of
                           None \<Rightarrow> []
                         | Some d \<Rightarrow> if d = [] then [] else d)
             in case Todo_create w (now e) ttl desc (castObjectId e (claim_id u)) of
                  Inr (t, w') \<Rightarrow> (res_status_json 201 (JTodo t), w')
                | Inl err \<Rightarrow> (res_status_json 500 (JError ''Server error''), w)))"

text \<open>The \<open>catch\<close> block shared by \<open>updateTodo\<close>, \<open>deleteTodo\<close> and \<open>markAsRead\<close>.\<close>

definition catch_invalid_id :: "js_error \<Rightarrow> response" where
  "catch_invalid_id err =
     (if error_name err = ''CastError'' then res_status_json 400 (JError ''Invalid todo ID'')
      else res_status_json 500 (JError ''Server error''))"

text \<open>
  The three assignments of an update, \<open>if (x !== undefined) todo.x = x\<close> for title,
  description and completed.
\<close>

definition apply_input :: "todo_input \<Rightarrow> todo \<Rightarrow> todo" where
  "apply_input b t =
     (let t1 = (case in_title b of None \<Rightarrow> t | Some x \<Rightarrow> t\<lparr>title := x\<rparr>);
          t2 = (case in_description b of None \<Rightarrow> t1 | Some x \<Rightarrow> t1\<lparr>description := x\<rparr>);
          t3 = (case in_completed b of None \<Rightarrow> t2 | Some x \<Rightarrow> t2\<lparr>completed := x\<rparr>)
      in t3)"

definition updateTodo ::
  "env \<Rightarrow> world \<Rightarrow> claims \<Rightarrow> string \<Rightarrow> todo_input \<Rightarrow> response \<times> world" where
  "updateTodo e w u ident b =
     (case Todo_findOne (todos w) (castObjectId e ident) (castObjectId e (claim_id u)) of
        Inl err \<Rightarrow> (catch_invalid_id err, w)
      | Inr None \<Rightarrow> (res_status_json 404 (JError ''Todo not found''), w)
      | Inr (Some t) \<Rightarrow>
          (case Todo_save w (now e) t (apply_input b t) of
             Inl err \<Rightarrow> (catch_invalid_id err, w)
           | Inr (saved, w') \<Rightarrow> (res_json (JTodo saved), w')))"

definition deleteTodo :: "env \<Rightarrow> world \<Rightarrow> claims \<Rightarrow> string \<Rightarrow> response \<times> world" where
  "deleteTodo e w u ident =
     (case Todo_findOneAndDelete (todos w) (castObjectId e ident)
             (castObjectId e (claim_id u)) of
        Inl err \<Rightarrow> (catch_invalid_id err, w)
      | Inr (None, ts) \<Rightarrow> (res_status_json 404 (JError ''Todo not found''), w)
      | Inr (Some t, ts) \<Rightarrow>
          (res_json (JMessage ''Todo deleted successfully''), w\<lparr>todos := ts\<rparr>))"

definition markAsRead :: "env \<Rightarrow> world \<Rightarrow> claims \<Rightarrow> string \<Rightarrow> response \<times> world" where
  "markAsRead e w u ident =
     (case Todo_findOne (todos w) (castObjectId e ident) (castObjectId e (claim_id u)) of
        Inl err \<Rightarrow> (catch_invalid_id err, w)
      | Inr None \<Rightarrow> (res_status_json 404 (JError ''Todo not found''), w)
      | Inr (Some t) \<Rightarrow>
          (case Todo_save w (now e) t (t\<lparr>read := True\<rparr>) of
             Inl err \<Rightarrow> (catch_invalid_id err, w)
           | Inr (saved, w') \<Rightarrow> (res_json (JTodo saved), w')))"

section \<open>The authentication middleware of the API (middleware/auth)\<close>

text \<open>\<open>s.split(c)\<close> of JavaScript: the pieces between the separators, empty ones kept.\<close>

fun split_on :: "char \<Rightarrow> string \<Rightarrow> string list" where
  "split_on c [] = [[]]"
| "split_on c (x # xs) =
     (if x = c then [] # split_on c xs
      else (case split_on c xs of
              [] \<Rightarrow> [[x]]
            | p # ps \<Rightarrow> (x # p) # ps))"

text \<open>
  \<open>authHeader && authHeader.split(' ')[1]\<close>: \<open>undefined\<close> for a missing header and
  for a header with no second piece, the empty string for an empty header.
\<close>

definition header_token :: "string option \<Rightarrow> string option" where
  "header_token authHeader =
     (case authHeader of
        None \<Rightarrow> None
      | Some a \<Rightarrow>
          if a = [] then Some []
          else (case split_on CHR '' '' a of
                  p # tok # ps \<Rightarrow> Some tok
                | _ \<Rightarrow> None))"

text \<open>
  Modelled from the spec: the User model (\<open>models/user\<close>) is not among the sources; the
  spec's credential store holds the user records, each under its identifier.
  \<open>User.findById\<close> is the keyed query on that collection, and like the Todo queries it
  throws \<open>CastError\<close> for an id that is no ObjectId.
\<close>

definition User_findById :: "env \<Rightarrow> user_doc list \<Rightarrow> string \<Rightarrow> js_error + user_doc option" where
  "User_findById e us ident =
     (case castObjectId e ident of
        None \<Rightarrow> Inl CastError
      | Some i \<Rightarrow> Inr (find (\<lambda>u. user_id u = i) us))"

text \<open>A middleware either answers the request itself or calls \<open>next()\<close>.\<close>

datatype 'a middleware = Respond response | Next 'a

definition auth_catch :: "js_error \<Rightarrow> response" where
  "auth_catch err =
     (if error_name err = ''JsonWebTokenError'' then res_status_json 401 (JError ''Invalid token'')
      else if error_name err = ''TokenExpiredError'' then res_status_json 401 (JError ''Token expired'')
      else res_status_json 500 (JError ''Server error''))"

definition auth :: "env \<Rightarrow> world \<Rightarrow> string option \<Rightarrow> claims middleware" where
  "auth e w authHeader =
     (case header_token authHeader of
        None \<Rightarrow> Respond (res_status_json 401 (JError ''No token provided, authorization denied''))
      | Some token \<Rightarrow>
          if token = [] then
            Respond (res_status_json 401 (JError ''No token provided, authorization denied''))
          else
            (case jwt_verify e token of
               Inl err \<Rightarrow> Respond (auth_catch err)
             | Inr decoded \<Rightarrow>
                 (case User_findById e (users w) (claim_id decoded) of
                    Inl err \<Rightarrow> Respond (auth_catch err)
                  | Inr None \<Rightarrow> Respond (res_status_json 401 (JError ''User not found''))
                  | Inr (Some usr) \<Rightarrow> Next decoded)))"

section \<open>The API router (routes/todoRoutes)\<close>

datatype api_route =
    GET_todos
  | POST_todos todo_input
  | PUT_todo string todo_input
  | DELETE_todo string
  | PATCH_todo_read string

definition todoRoutes :: "env \<Rightarrow> world \<Rightarrow> string option \<Rightarrow> api_route \<Rightarrow> response \<times> world" where
  "todoRoutes e w authHeader r =
     (case auth e w authHeader of
        Respond resp \<Rightarrow> (resp, w)
      | Next u \<Rightarrow>
          (case r of
             GET_todos \<Rightarrow> getTodos e w u
           | POST_todos b \<Rightarrow> createTodo e w u b
           | PUT_todo ident b \<Rightarrow> updateTodo e w u ident b
           | DELETE_todo ident \<Rightarrow> deleteTodo e w u ident
           | PATCH_todo_read ident \<Rightarrow> markAsRead e w u ident))"

section \<open>The application (app.js)\<close>

text \<open>
  The cookie middleware runs on every request. What it leaves behind is \<open>req.user\<close>
  and whether \<open>res.clearCookie('token')\<close> was called.
\<close>

record ctx =
  req_user :: "user_doc option"
  cookie_cleared :: bool

definition cookie_jwt :: "env \<Rightarrow> world \<Rightarrow> string option \<Rightarrow> ctx middleware" where
  "cookie_jwt e w cookie =
     (case cookie of
        None \<Rightarrow> Next \<lparr>req_user = None, cookie_cleared = False\<rparr>
      | Some token \<Rightarrow>
          if token = [] then Next \<lparr>req_user = None, cookie_cleared = False\<rparr>
          else
            (case jwt_verify e token of
               Inl err \<Rightarrow> Next \<lparr>req_user = None, cookie_cleared = True\<rparr>
             | Inr decoded \<Rightarrow>
                 (case User_findById e (users w) (claim_id decoded) of
                    Inl err \<Rightarrow> Next \<lparr>req_user = None, cookie_cleared = True\<rparr>
                  | Inr None \<Rightarrow> Next \<lparr>req_user = None, cookie_cleared = False\<rparr>
                  | Inr (Some usr) \<Rightarrow> Next \<lparr>req_user = Some usr, cookie_cleared = False\<rparr>)))"

text \<open>
  The todo handlers of the HTML-form surface. They read \<open>req.user\<close> as the cookie
  middleware left it (a user document, so the owner needs no cast), and their \<open>catch\<close>
  blocks answer 500 whatever was thrown.
\<close>

definition app_post_todos :: "env \<Rightarrow> world \<Rightarrow> user_doc option \<Rightarrow> todo_input \<Rightarrow> response \<times> world" where
  "app_post_todos e w ru b =
     (case ru of
        None \<Rightarrow> (res_status_json 401 (JError ''Unauthorized''), w)
      | Some usr \<Rightarrow>
          (case in_title b of
             None \<Rightarrow> (res_status_json 400 (JError ''Title is required''), w)
           | Some ttl \<Rightarrow>
               if ttl = [] then (res_status_json 400 (JError ''Title is required''), w)
               else
                 (let desc = (case in_description b of
                                None \<Rightarrow> []
                              | Some d \<Rightarrow> if d = [] then [] else d)
                  in case Todo_create w (now e) ttl desc (Some (user_id usr)) of
                       Inr (t, w') \<Rightarrow> (res_status_json 201 (JTodo t), w')
                     | Inl err \<Rightarrow> (res_status_json 500 (JError ''Server error''), w))))"

definition app_put_todo ::
  "env \<Rightarrow> world \<Rightarrow> user_doc option \<Rightarrow> string \<Rightarrow> todo_input \<Rightarrow> response \<times> world" where
  "app_put_todo e w ru ident b =
     (case ru of
        None \<Rightarrow> (res_status_json 401 (JError ''Unauthorized''), w)
      | Some usr \<Rightarrow>
          (case Todo_findOne (todos w) (castObjectId e ident) (Some (user_id usr)) of
             Inl err \<Rightarrow> (res_status_json 500 (JError ''Server error''), w)
           | Inr None \<Rightarrow> (res_status_json 404 (JError ''Todo not found''), w)
           | Inr (Some t) \<Rightarrow>
               (case Todo_save w (now e) t (apply_input b t) of
                  Inl err \<Rightarrow> (res_status_json 500 (JError ''Server error''), w)
                | Inr (saved, w') \<Rightarrow> (res_json JSuccess, w'))))"

definition app_delete_todo :: "env \<Rightarrow> world \<Rightarrow> user_doc option \<Rightarrow> string \<Rightarrow> response \<times> world" where
  "app_delete_todo e w ru ident =
     (case ru of
        None \<Rightarrow> (res_status_json 401 (JError ''Unauthorized''), w)
      | Some usr \<Rightarrow>
          (case Todo_findOneAndDelete (todos w) (castObjectId e ident) (Some (user_id usr)) of
             Inl err \<Rightarrow> (res_status_json 500 (JError ''Server error''), w)
           | Inr (None, ts) \<Rightarrow> (res_status_json 404 (JError ''Todo not found''), w)
           | Inr (Some t, ts) \<Rightarrow> (res_json JSuccess, w\<lparr>todos := ts\<rparr>)))"

definition app_patch_todo_read ::
  "env \<Rightarrow> world \<Rightarrow> user_doc option \<Rightarrow> string \<Rightarrow> response \<times> world" where
  "app_patch_todo_read e w ru ident =
     (case ru of
        None \<Rightarrow> (res_status_json 401 (JError ''Unauthorized''), w)
      | Some usr \<Rightarrow>
          (case Todo_findOne (todos w) (castObjectId e ident) (Some (user_id usr)) of
             Inl err \<Rightarrow> (res_status_json 500 (JError ''Server error''), w)
           | Inr None \<Rightarrow> (res_status_json 404 (JError ''Todo not found''), w)
           | Inr (Some t) \<Rightarrow>
               (case Todo_save w (now e) t (t\<lparr>read := True\<rparr>) of
                  Inl err \<Rightarrow> (res_status_json 500 (JError ''Server error''), w)
                | Inr (saved, w') \<Rightarrow> (res_json JSuccess, w'))))"

text \<open>
  A request to one of the todo routes: the \<open>Authorization\<close> header, the \<open>token\<close>
  cookie, and the route with its parameters. The pages, login, registration and logout
  never touch the todos collection and are left out.
\<close>

datatype route =
    Api api_route
  | POST_todos_form todo_input
  | PUT_todo_form string todo_input
  | DELETE_todo_form string
  | PATCH_todo_read_form string

record request =
  authorization :: "string option"
  cookie_token :: "string option"
  target :: route

record outcome =
  reply :: response
  clearCookie :: bool
  after :: world

text \<open>The routes behind the cookie middleware, given the \<open>req.user\<close> it left.\<close>

definition dispatch :: "env \<Rightarrow> world \<Rightarrow> request \<Rightarrow> user_doc option \<Rightarrow> response \<times> world" where
  "dispatch e w req ru =
     (case target req of
        Api r \<Rightarrow> todoRoutes e w (authorization req) r
      | POST_todos_form b \<Rightarrow> app_post_todos e w ru b
      | PUT_todo_form ident b \<Rightarrow> app_put_todo e w ru ident b
      | DELETE_todo_form ident \<Rightarrow> app_delete_todo e w ru ident
      | PATCH_todo_read_form ident \<Rightarrow> app_patch_todo_read e w ru ident)"

definition app :: "env \<Rightarrow> world \<Rightarrow> request \<Rightarrow> outcome" where
  "app e w req =
     (case cookie_jwt e w (cookie_token req) of
        Respond resp \<Rightarrow> \<lparr>reply = resp, clearCookie = False, after = w\<rparr>
      | Next c \<Rightarrow>
          (let (resp, w') = dispatch e w req (req_user c)
           in \<lparr>reply = resp, clearCookie = cookie_cleared c, after = w'\<rparr>))"

text \<open>The store after a sequence of requests, each in the environment it arrives in.\<close>

fun run :: "world \<Rightarrow> (env \<times> request) list \<Rightarrow> world" where
  "run w [] = w"
| "run w ((e, req) # rs) = run (after (app e w req)) rs"

section \<open>Well-formed stores\<close>

text \<open>
  What the store guarantees of the todos collection: \<open>_id\<close> is a unique key, and every
  identifier in use was generated before.
\<close>

definition store_ok :: "world \<Rightarrow> bool" where
  "store_ok w =
     (distinct (map todo_id (todos w)) \<and> list_all (\<lambda>t. todo_id t < next_oid w) (todos w))"

text \<open>The document stored under an identifier, and the todos a response lists.\<close>

definition stored :: "world \<Rightarrow> oid \<Rightarrow> todo option" where
  "stored w i = find (\<lambda>t. todo_id t = i) (todos w)"

fun listed :: "response \<Rightarrow> todo list" where
  "listed r = (case body r of JTodos ts \<Rightarrow> ts | _ \<Rightarrow> [])"

section \<open>A concrete environment\<close>

text \<open>
  For evaluating the handlers: ObjectIds written, as the driver prints them, in 24
  hexadecimal digits, and three tokens.
\<close>

fun index_of :: "char \<Rightarrow> string \<Rightarrow> nat option" where
  "index_of c [] = None"
| "index_of c (x # xs) = (if x = c then Some 0 else map_option Suc (index_of c xs))"

definition hex_digit :: "char \<Rightarrow> nat option" where
  "hex_digit c =
     (case index_of c ''0123456789abcdef'' of
        Some d \<Rightarrow> Some d
      | None \<Rightarrow> map_option (\<lambda>d. d + 10) (index_of c ''ABCDEF''))"

fun hex_value :: "nat \<Rightarrow> string \<Rightarrow> nat option" where
  "hex_value acc [] = Some acc"
| "hex_value acc (c # cs) =
     (case hex_digit c of
        None \<Rightarrow> None
      | Some d \<Rightarrow> hex_value (16 * acc + d) cs)"

definition hex24 :: "string \<Rightarrow> oid option" where
  "hex24 s = (if length s = 24 then hex_value 0 s else None)"

definition alice :: claims where
  "alice = \<lparr>claim_id = ''000000000000000000000001'', claim_username = ''alice''\<rparr>"

definition bob :: claims where
  "bob = \<lparr>claim_id = ''000000000000000000000002'', claim_username = ''bob''\<rparr>"

definition ghost :: claims where
  "ghost = \<lparr>claim_id = ''000000000000000000000009'', claim_username = ''ghost''\<rparr>"

definition stray :: claims where
  "stray = \<lparr>claim_id = ''zzz'', claim_username = ''stray''\<rparr>"

definition demo_check :: "string \<Rightarrow> jwt_result" where
  "demo_check token =
     (if token = ''tok-alice'' then Verified alice
      else if token = ''tok-bob'' then Verified bob
      else if token = ''tok-ghost'' then Verified ghost
      else if token = ''tok-stray'' then Verified stray
      else if token = ''tok-old'' then Expired
      else if token = ''tok-early'' then NotActive
      else if token = ''tok-forged'' then InvalidSignature
      else Malformed)"

definition demo_env :: env where
  "demo_env = \<lparr>castObjectId = hex24, jwt_check = demo_check, now = 50\<rparr>"

definition milk :: todo where
  "milk = \<lparr>todo_id = 16, title = ''Buy milk'', description = [], read = False,
            completed = False, user = 1, createdAt = 10, updatedAt = 10\<rparr>"

definition rent :: todo where
  "rent = \<lparr>todo_id = 17, title = ''Pay rent'', description = ''by Friday'', read = False,
            completed = False, user = 2, createdAt = 20, updatedAt = 20\<rparr>"

definition demo_world :: world where
  "demo_world =
     \<lparr>todos = [milk, rent],
      users = [\<lparr>user_id = 1, username = ''alice''\<rparr>, \<lparr>user_id = 2, username = ''bob''\<rparr>],
      next_oid = 18\<rparr>"

section \<open>The store under the handlers\<close>

lemma find_other_owner:
  assumes "distinct (map todo_id ts)" "t \<in> set ts" "user t \<noteq> u"
  shows "find (\<lambda>x. todo_id x = todo_id t \<and> user x = u) ts = None"
proof -
  have "inj_on todo_id (set ts)" using assms(1) by (simp add: distinct_map)
  then have "\<And>x. x \<in> set ts \<Longrightarrow> todo_id x = todo_id t \<Longrightarrow> x = t"
    using assms(2) by (auto dest: inj_onD)
  then show ?thesis using assms(3) by (auto simp: find_None_iff)
qed

lemma find_owned:
  assumes "distinct (map todo_id ts)" "t \<in> set ts"
  shows "find (\<lambda>x. todo_id x = todo_id t \<and> user x = user t) ts = Some t"
  using assms by (induction ts) (auto simp: image_iff)

lemma find_by_id:
  assumes "distinct (map todo_id ts)" "t \<in> set ts"
  shows "find (\<lambda>x. todo_id x = todo_id t) ts = Some t"
  using assms by (induction ts) (auto simp: image_iff)

lemma find_absent:
  assumes "i \<notin> todo_id ` set ts"
  shows "find (\<lambda>x. todo_id x = i \<and> user x = u) ts = None"
  using assms by (auto simp: find_None_iff)

lemma find_id_absent:
  assumes "i \<notin> todo_id ` set ts"
  shows "find (\<lambda>x. todo_id x = i) ts = None"
  using assms by (auto simp: find_None_iff)

lemma find_mem: "find P xs = Some x \<Longrightarrow> x \<in> set xs"
  by (induction xs) (auto split: if_splits)

lemma map_id_updateOne:
  "todo_id d = i \<Longrightarrow> map todo_id (updateOne i d ts) = map todo_id ts"
  by (induction ts) auto

lemma find_updateOne_same:
  "i \<in> todo_id ` set ts \<Longrightarrow> todo_id d = i \<Longrightarrow>
   find (\<lambda>x. todo_id x = i) (updateOne i d ts) = Some d"
  by (induction ts) auto

lemma find_updateOne_other:
  "j \<noteq> i \<Longrightarrow> todo_id d = i \<Longrightarrow>
   find (\<lambda>x. todo_id x = j) (updateOne i d ts) = find (\<lambda>x. todo_id x = j) ts"
  by (induction ts) auto

lemma set_deleteFirst: "set (deleteFirst P ts) \<subseteq> set ts"
  by (induction ts) auto

lemma deleteFirst_removes:
  "distinct (map todo_id ts) \<Longrightarrow> t \<in> set ts \<Longrightarrow>
   todo_id t \<notin> todo_id ` set (deleteFirst (\<lambda>x. todo_id x = todo_id t \<and> user x = user t) ts)"
proof (induction ts)
  case Nil
  then show ?case by simp
next
  case (Cons a ts)
  then show ?case
    using set_deleteFirst [of "\<lambda>x. todo_id x = todo_id t \<and> user x = user t" ts]
    by (auto simp: image_iff)
qed

lemma find_deleteFirst_other:
  "(\<And>x. P x \<Longrightarrow> todo_id x \<noteq> j) \<Longrightarrow>
   find (\<lambda>x. todo_id x = j) (deleteFirst P ts) = find (\<lambda>x. todo_id x = j) ts"
  by (induction ts) auto

lemma apply_input_fields:
  "todo_id (apply_input b t) = todo_id t
   \<and> read (apply_input b t) = read t
   \<and> user (apply_input b t) = user t
   \<and> createdAt (apply_input b t) = createdAt t
   \<and> updatedAt (apply_input b t) = updatedAt t
   \<and> title (apply_input b t) = (case in_title b of None \<Rightarrow> title t | Some x \<Rightarrow> x)
   \<and> description (apply_input b t) = (case in_description b of None \<Rightarrow> description t | Some x \<Rightarrow> x)
   \<and> completed (apply_input b t) = (case in_completed b of None \<Rightarrow> completed t | Some x \<Rightarrow> x)"
  by (simp add: apply_input_def Let_def split: option.splits)

lemma apply_input_id: "todo_id (apply_input b t) = todo_id t"
  using apply_input_fields [of b t] by simp

lemma Todo_save_result:
  "\<not> (title d \<noteq> title t \<and> title d = []) \<Longrightarrow>
   Todo_save w n t d =
     Inr (if d = t then d else d\<lparr>updatedAt := n\<rparr>,
          if d = t then w else w\<lparr>todos := updateOne (todo_id d) (d\<lparr>updatedAt := n\<rparr>) (todos w)\<rparr>)"
  by (simp add: Todo_save_def Let_def)

lemma stored_after_save:
  assumes "distinct (map todo_id (todos w))" "t \<in> set (todos w)" "todo_id d = todo_id t"
  shows "stored (if d = t then w else w\<lparr>todos := updateOne (todo_id d) (d\<lparr>updatedAt := n\<rparr>) (todos w)\<rparr>)
           (todo_id t) = Some (if d = t then d else d\<lparr>updatedAt := n\<rparr>)"
    and "j \<noteq> todo_id t \<Longrightarrow>
         stored (if d = t then w else w\<lparr>todos := updateOne (todo_id d) (d\<lparr>updatedAt := n\<rparr>) (todos w)\<rparr>) j
           = stored w j"
  using assms find_by_id [OF assms(1,2)]
  by (auto simp: stored_def find_updateOne_same find_updateOne_other)

lemma Todo_save_ids:
  assumes "Todo_save w n t d = Inr (s, w')" "todo_id d = todo_id t"
  shows "map todo_id (todos w') = map todo_id (todos w) \<and> next_oid w' = next_oid w"
  using assms
  by (auto simp: Todo_save_def Let_def map_id_updateOne split: if_splits)

lemma Todo_create_ids:
  assumes "Todo_create w n ttl desc uo = Inr (d, w')"
  shows "map todo_id (todos w') = map todo_id (todos w) @ [next_oid w]
         \<and> next_oid w' = Suc (next_oid w)"
  using assms
  by (auto simp: Todo_create_def Let_def split: option.splits if_splits)

lemma getTodos_keeps_world: "snd (getTodos e w u) = w"
  by (simp add: getTodos_def split: sum.splits)

lemma listed_getTodos: "set (listed (fst (getTodos e w u))) \<subseteq> set (todos w)"
  by (auto simp: getTodos_def Todo_find_def res_json_def res_status_json_def split: option.splits)

lemma auth_Next:
  assumes "auth e w h = Next u"
  shows "\<exists>i usr. castObjectId e (claim_id u) = Some i
           \<and> find (\<lambda>x. user_id x = i) (users w) = Some usr"
  using assms
  by (auto simp: auth_def User_findById_def split: option.splits if_splits sum.splits)

section \<open>What every request preserves\<close>

text \<open>
  An identifier that was generated before and is not in the collection stays out of it,
  whatever requests follow: new documents get identifiers the counter has not yet given
  out, and saving a document keeps its identifier.
\<close>

lemma save_keeps_gone:
  assumes "Todo_save w n t d = Inr (s, w')" "todo_id d = todo_id t"
    and "i < next_oid w" "i \<notin> todo_id ` set (todos w)"
  shows "i < next_oid w' \<and> i \<notin> todo_id ` set (todos w')"
proof -
  have "map todo_id (todos w') = map todo_id (todos w)" "next_oid w' = next_oid w"
    using Todo_save_ids [OF assms(1,2)] by simp_all
  moreover have "todo_id ` set (todos w') = set (map todo_id (todos w'))" by simp
  ultimately show ?thesis using assms(3,4) by simp
qed

lemma create_keeps_gone:
  assumes "Todo_create w n ttl desc uo = Inr (d, w')"
    and "i < next_oid w" "i \<notin> todo_id ` set (todos w)"
  shows "i < next_oid w' \<and> i \<notin> todo_id ` set (todos w')"
proof -
  have "map todo_id (todos w') = map todo_id (todos w) @ [next_oid w]"
    "next_oid w' = Suc (next_oid w)"
    using Todo_create_ids [OF assms(1)] by simp_all
  moreover have "todo_id ` set (todos w') = set (map todo_id (todos w'))" by simp
  ultimately show ?thesis using assms(2,3) by auto
qed

lemma delete_keeps_gone:
  assumes "i < next_oid w" "i \<notin> todo_id ` set (todos w)"
  shows "i \<notin> todo_id ` set (deleteFirst P (todos w))"
  using assms set_deleteFirst [of P "todos w"] by auto

lemma save_keeps_gone':
  "Todo_save w n t d = Inr (s, w') \<Longrightarrow> todo_id d = todo_id t \<Longrightarrow>
   i < next_oid w \<Longrightarrow> i \<notin> todo_id ` set (todos w) \<Longrightarrow>
   i < next_oid w' \<and> i \<notin> todo_id ` set (todos w')"
  by (rule save_keeps_gone)

lemma createTodo_keeps_gone:
  assumes "i < next_oid w" "i \<notin> todo_id ` set (todos w)"
  shows "i < next_oid (snd (createTodo e w u b))
         \<and> i \<notin> todo_id ` set (todos (snd (createTodo e w u b)))"
  using assms
  by (auto simp: createTodo_def Let_def split: sum.splits option.splits
      dest: create_keeps_gone [where i = i])

lemma updateTodo_keeps_gone:
  assumes "i < next_oid w" "i \<notin> todo_id ` set (todos w)"
  shows "i < next_oid (snd (updateTodo e w u ident b))
         \<and> i \<notin> todo_id ` set (todos (snd (updateTodo e w u ident b)))"
  using assms
  by (auto simp: updateTodo_def apply_input_id split: sum.splits option.splits
      dest: save_keeps_gone' [where i = i and d = "apply_input b t" for t])

lemma deleteTodo_keeps_gone:
  assumes "i < next_oid w" "i \<notin> todo_id ` set (todos w)"
  shows "i < next_oid (snd (deleteTodo e w u ident))
         \<and> i \<notin> todo_id ` set (todos (snd (deleteTodo e w u ident)))"
  using assms delete_keeps_gone [OF assms]
  by (auto simp: deleteTodo_def Todo_findOneAndDelete_def split: sum.splits option.splits)

lemma markAsRead_keeps_gone:
  assumes "i < next_oid w" "i \<notin> todo_id ` set (todos w)"
  shows "i < next_oid (snd (markAsRead e w u ident))
         \<and> i \<notin> todo_id ` set (todos (snd (markAsRead e w u ident)))"
  using assms
  by (auto simp: markAsRead_def split: sum.splits option.splits
      dest: save_keeps_gone' [where i = i and d = "t\<lparr>read := True\<rparr>" for t])

lemma todoRoutes_keeps_gone:
  assumes "i < next_oid w" "i \<notin> todo_id ` set (todos w)"
  shows "i < next_oid (snd (todoRoutes e w h r))
         \<and> i \<notin> todo_id ` set (todos (snd (todoRoutes e w h r)))"
proof (cases "auth e w h")
  case (Respond resp)
  then show ?thesis using assms by (simp add: todoRoutes_def)
next
  case (Next u)
  then show ?thesis
    using assms getTodos_keeps_world [of e w u] createTodo_keeps_gone [OF assms, of e u]
      updateTodo_keeps_gone [OF assms, of e u] deleteTodo_keeps_gone [OF assms, of e u]
      markAsRead_keeps_gone [OF assms, of e u]
    by (cases r) (simp_all add: todoRoutes_def)
qed

lemma app_post_todos_keeps_gone:
  assumes "i < next_oid w" "i \<notin> todo_id ` set (todos w)"
  shows "i < next_oid (snd (app_post_todos e w ru b))
         \<and> i \<notin> todo_id ` set (todos (snd (app_post_todos e w ru b)))"
  using assms
  by (auto simp: app_post_todos_def Let_def split: sum.splits option.splits
      dest: create_keeps_gone [where i = i])

lemma app_put_todo_keeps_gone:
  assumes "i < next_oid w" "i \<notin> todo_id ` set (todos w)"
  shows "i < next_oid (snd (app_put_todo e w ru ident b))
         \<and> i \<notin> todo_id ` set (todos (snd (app_put_todo e w ru ident b)))"
  using assms
  by (auto simp: app_put_todo_def apply_input_id split: sum.splits option.splits
      dest: save_keeps_gone' [where i = i and d = "apply_input b t" for t])

lemma app_delete_todo_keeps_gone:
  assumes "i < next_oid w" "i \<notin> todo_id ` set (todos w)"
  shows "i < next_oid (snd (app_delete_todo e w ru ident))
         \<and> i \<notin> todo_id ` set (todos (snd (app_delete_todo e w ru ident)))"
  using assms delete_keeps_gone [OF assms]
  by (auto simp: app_delete_todo_def Todo_findOneAndDelete_def split: sum.splits option.splits)

lemma app_patch_todo_read_keeps_gone:
  assumes "i < next_oid w" "i \<notin> todo_id ` set (todos w)"
  shows "i < next_oid (snd (app_patch_todo_read e w ru ident))
         \<and> i \<notin> todo_id ` set (todos (snd (app_patch_todo_read e w ru ident)))"
  using assms
  by (auto simp: app_patch_todo_read_def split: sum.splits option.splits
      dest: save_keeps_gone' [where i = i and d = "t\<lparr>read := True\<rparr>" for t])

lemma app_keeps_gone:
  assumes "i < next_oid w" "i \<notin> todo_id ` set (todos w)"
  shows "i < next_oid (after (app e w req)) \<and> i \<notin> todo_id ` set (todos (after (app e w req)))"
proof (cases "cookie_jwt e w (cookie_token req)")
  case (Respond resp)
  then show ?thesis using assms by (simp add: app_def)
next
  case (Next c)
  then show ?thesis
    using todoRoutes_keeps_gone [OF assms, of e "authorization req"]
      app_post_todos_keeps_gone [OF assms, of e "req_user c"]
      app_put_todo_keeps_gone [OF assms, of e "req_user c"]
      app_delete_todo_keeps_gone [OF assms, of e "req_user c"]
      app_patch_todo_read_keeps_gone [OF assms, of e "req_user c"]
    by (cases "target req") (simp_all add: app_def dispatch_def split_beta)
qed

lemma run_keeps_gone:
  "i < next_oid w \<Longrightarrow> i \<notin> todo_id ` set (todos w) \<Longrightarrow>
   i < next_oid (run w rs) \<and> i \<notin> todo_id ` set (todos (run w rs))"
proof (induction rs arbitrary: w)
  case Nil
  then show ?case by simp
next
  case (Cons a rs)
  obtain e req where a: "a = (e, req)" by (cases a)
  show ?case
    using Cons.IH [of "after (app e w req)"] app_keeps_gone [OF Cons.prems, of e req] a
    by simp
qed

text \<open>
  Well-formedness is an invariant: it holds of the empty collection and every request
  preserves it, so it holds of every store the application can reach.
\<close>

lemma store_ok_ids:
  "store_ok w \<longleftrightarrow>
     distinct (map todo_id (todos w)) \<and> (\<forall>i \<in> set (map todo_id (todos w)). i < next_oid w)"
  by (auto simp: store_ok_def list_all_iff)

lemma distinct_deleteFirst:
  "distinct (map todo_id ts) \<Longrightarrow> distinct (map todo_id (deleteFirst P ts))"
proof (induction ts)
  case Nil
  then show ?case by simp
next
  case (Cons a ts)
  then show ?case using set_deleteFirst [of P ts] by auto
qed

lemma save_keeps_ok:
  "Todo_save w n t d = Inr (s, w') \<Longrightarrow> todo_id d = todo_id t \<Longrightarrow> store_ok w \<Longrightarrow> store_ok w'"
  using Todo_save_ids [of w n t d s w'] by (simp add: store_ok_ids)

lemma create_keeps_ok:
  "Todo_create w n ttl desc uo = Inr (d, w') \<Longrightarrow> store_ok w \<Longrightarrow> store_ok w'"
  using Todo_create_ids [of w n ttl desc uo d w'] by (auto simp: store_ok_ids)

lemma delete_keeps_ok:
  "store_ok w \<Longrightarrow> store_ok (w\<lparr>todos := deleteFirst P (todos w)\<rparr>)"
  using set_deleteFirst [of P "todos w"] by (auto simp: store_ok_ids distinct_deleteFirst)

lemma createTodo_keeps_ok: "store_ok w \<Longrightarrow> store_ok (snd (createTodo e w u b))"
  by (auto simp: createTodo_def Let_def split: sum.splits option.splits dest: create_keeps_ok)

lemma updateTodo_keeps_ok: "store_ok w \<Longrightarrow> store_ok (snd (updateTodo e w u ident b))"
  by (auto simp: updateTodo_def apply_input_id split: sum.splits option.splits
      dest: save_keeps_ok [where d = "apply_input b t" for t])

lemma deleteTodo_keeps_ok: "store_ok w \<Longrightarrow> store_ok (snd (deleteTodo e w u ident))"
  by (auto simp: deleteTodo_def Todo_findOneAndDelete_def delete_keeps_ok
      split: sum.splits option.splits)

lemma markAsRead_keeps_ok: "store_ok w \<Longrightarrow> store_ok (snd (markAsRead e w u ident))"
  by (auto simp: markAsRead_def split: sum.splits option.splits
      dest: save_keeps_ok [where d = "t\<lparr>read := True\<rparr>" for t])

lemma todoRoutes_keeps_ok:
  assumes "store_ok w"
  shows "store_ok (snd (todoRoutes e w h r))"
proof (cases "auth e w h")
  case (Respond resp)
  then show ?thesis using assms by (simp add: todoRoutes_def)
next
  case (Next u)
  then show ?thesis
    using assms getTodos_keeps_world [of e w u] createTodo_keeps_ok [OF assms, of e u]
      updateTodo_keeps_ok [OF assms, of e u] deleteTodo_keeps_ok [OF assms, of e u]
      markAsRead_keeps_ok [OF assms, of e u]
    by (cases r) (simp_all add: todoRoutes_def)
qed

lemma app_post_todos_keeps_ok: "store_ok w \<Longrightarrow> store_ok (snd (app_post_todos e w ru b))"
  by (auto simp: app_post_todos_def Let_def split: sum.splits option.splits
      dest: create_keeps_ok)

lemma app_put_todo_keeps_ok: "store_ok w \<Longrightarrow> store_ok (snd (app_put_todo e w ru ident b))"
  by (auto simp: app_put_todo_def apply_input_id split: sum.splits option.splits
      dest: save_keeps_ok [where d = "apply_input b t" for t])

lemma app_delete_todo_keeps_ok: "store_ok w \<Longrightarrow> store_ok (snd (app_delete_todo e w ru ident))"
  by (auto simp: app_delete_todo_def Todo_findOneAndDelete_def delete_keeps_ok
      split: sum.splits option.splits)

lemma app_patch_todo_read_keeps_ok:
  "store_ok w \<Longrightarrow> store_ok (snd (app_patch_todo_read e w ru ident))"
  by (auto simp: app_patch_todo_read_def split: sum.splits option.splits
      dest: save_keeps_ok [where d = "t\<lparr>read := True\<rparr>" for t])

lemma app_keeps_ok:
  assumes "store_ok w"
  shows "store_ok (after (app e w req))"
proof (cases "cookie_jwt e w (cookie_token req)")
  case (Respond resp)
  then show ?thesis using assms by (simp add: app_def)
next
  case (Next c)
  then show ?thesis
    using todoRoutes_keeps_ok [OF assms, of e "authorization req"]
      app_post_todos_keeps_ok [OF assms, of e "req_user c"]
      app_put_todo_keeps_ok [OF assms, of e "req_user c"]
      app_delete_todo_keeps_ok [OF assms, of e "req_user c"]
      app_patch_todo_read_keeps_ok [OF assms, of e "req_user c"]
    by (cases "target req") (simp_all add: app_def dispatch_def split_beta)
qed

lemma run_keeps_ok: "store_ok w \<Longrightarrow> store_ok (run w rs)"
proof (induction rs arbitrary: w)
  case Nil
  then show ?case by simp
next
  case (Cons a rs)
  obtain e req where a: "a = (e, req)" by (cases a)
  show ?case
    using Cons.IH [of "after (app e w req)"] app_keeps_ok [OF Cons.prems, of e req] a
    by simp
qed

lemma empty_store_ok: "store_ok \<lparr>todos = [], users = us, next_oid = n\<rparr>"
  by (simp add: store_ok_def)

section \<open>Ownership scoping\<close>

text \<open>
  C1. A todo \<open>t\<close> of one user, asked for by another authenticated user \<open>b\<close> through
  Update, Delete or MarkRead: the answer is 404 \<open>Todo not found\<close> and the store is left
  as it was; the answer is the very response given for an identifier \<open>ident'\<close> under
  which nothing is stored, so the caller cannot tell the two cases apart.
\<close>

theorem cross_user_is_not_found:
  assumes "store_ok w"
    and "t \<in> set (todos w)"
    and "castObjectId e ident = Some (todo_id t)"
    and "castObjectId e (claim_id b) = Some ub"
    and "ub \<noteq> user t"
    and "castObjectId e ident' = Some j"
    and "stored w j = None"
  shows "updateTodo e w b ident inp = (res_status_json 404 (JError ''Todo not found''), w)
       \<and> updateTodo e w b ident' inp = (res_status_json 404 (JError ''Todo not found''), w)
       \<and> deleteTodo e w b ident = (res_status_json 404 (JError ''Todo not found''), w)
       \<and> deleteTodo e w b ident' = (res_status_json 404 (JError ''Todo not found''), w)
       \<and> markAsRead e w b ident = (res_status_json 404 (JError ''Todo not found''), w)
       \<and> markAsRead e w b ident' = (res_status_json 404 (JError ''Todo not found''), w)"
proof -
  have d: "distinct (map todo_id (todos w))"
    using assms(1) by (simp add: store_ok_def)
  have other: "find (\<lambda>x. todo_id x = todo_id t \<and> user x = ub) (todos w) = None"
    using assms(5) by (intro find_other_owner [OF d assms(2)]) simp
  have "j \<notin> todo_id ` set (todos w)"
    using assms(7) by (auto simp: stored_def find_None_iff)
  then have absent: "find (\<lambda>x. todo_id x = j \<and> user x = ub) (todos w) = None"
    by (rule find_absent)
  show ?thesis
    using assms(3,4,6) other absent
    by (simp add: updateTodo_def deleteTodo_def markAsRead_def Todo_findOne_def
        Todo_findOneAndDelete_def)
qed

theorem cross_user_is_not_found_witness:
  "store_ok demo_world
   \<and> milk \<in> set (todos demo_world)
   \<and> castObjectId demo_env ''000000000000000000000010'' = Some (todo_id milk)
   \<and> castObjectId demo_env (claim_id bob) = Some 2
   \<and> 2 \<noteq> user milk
   \<and> castObjectId demo_env ''0000000000000000000000ff'' = Some 255
   \<and> stored demo_world 255 = None
   \<and> updateTodo demo_env demo_world bob ''000000000000000000000010''
         \<lparr>in_title = Some ''mine'', in_description = None, in_completed = None\<rparr>
       = (res_status_json 404 (JError ''Todo not found''), demo_world)
   \<and> updateTodo demo_env demo_world bob ''0000000000000000000000ff''
         \<lparr>in_title = Some ''mine'', in_description = None, in_completed = None\<rparr>
       = (res_status_json 404 (JError ''Todo not found''), demo_world)
   \<and> deleteTodo demo_env demo_world bob ''000000000000000000000010''
       = (res_status_json 404 (JError ''Todo not found''), demo_world)
   \<and> markAsRead demo_env demo_world bob ''000000000000000000000010''
       = (res_status_json 404 (JError ''Todo not found''), demo_world)"
proof -
  have h1: "store_ok demo_world"
    by (simp add: store_ok_def demo_world_def milk_def rent_def)
  have h2: "milk \<in> set (todos demo_world)"
    by (simp add: demo_world_def)
  have h3: "castObjectId demo_env ''000000000000000000000010'' = Some (todo_id milk)"
    by (simp add: demo_env_def hex24_def hex_digit_def milk_def)
  have h4: "castObjectId demo_env (claim_id bob) = Some 2"
    by (simp add: demo_env_def hex24_def hex_digit_def bob_def)
  have h5: "2 \<noteq> user milk"
    by (simp add: milk_def)
  have h6: "castObjectId demo_env ''0000000000000000000000ff'' = Some 255"
    by (simp add: demo_env_def hex24_def hex_digit_def)
  have h7: "stored demo_world 255 = None"
    by (simp add: stored_def demo_world_def milk_def rent_def)
  show ?thesis
    using h1 h2 h3 h4 h5 h6 h7
      cross_user_is_not_found [OF h1 h2 h3 h4 h5 h6 h7,
        of "\<lparr>in_title = Some ''mine'', in_description = None, in_completed = None\<rparr>"]
    by simp
qed

section \<open>Malformed identifiers\<close>

text \<open>
  C8. On the API surface, an Update, Delete or MarkRead whose id parameter the store
  cannot cast to an identifier answers 400 \<open>Invalid todo ID\<close> (neither 404 nor 500),
  leaves the store as it was, and its answer does not depend on what the store holds: no
  record is read.
\<close>

theorem api_malformed_id_is_400:
  assumes "castObjectId e ident = None"
  shows "updateTodo e w u ident b = (res_status_json 400 (JError ''Invalid todo ID''), w)
       \<and> deleteTodo e w u ident = (res_status_json 400 (JError ''Invalid todo ID''), w)
       \<and> markAsRead e w u ident = (res_status_json 400 (JError ''Invalid todo ID''), w)"
  using assms
  by (simp add: updateTodo_def deleteTodo_def markAsRead_def Todo_findOne_def
      Todo_findOneAndDelete_def catch_invalid_id_def)

theorem api_malformed_id_is_400_witness:
  "castObjectId demo_env ''zzz'' = None
   \<and> updateTodo demo_env demo_world alice ''zzz''
         \<lparr>in_title = None, in_description = None, in_completed = Some True\<rparr>
       = (res_status_json 400 (JError ''Invalid todo ID''), demo_world)
   \<and> deleteTodo demo_env demo_world alice ''zzz''
       = (res_status_json 400 (JError ''Invalid todo ID''), demo_world)
   \<and> markAsRead demo_env demo_world alice ''zzz''
       = (res_status_json 400 (JError ''Invalid todo ID''), demo_world)"
proof -
  have h: "castObjectId demo_env ''zzz'' = None"
    by (simp add: demo_env_def hex24_def hex_digit_def)
  show ?thesis
    using h api_malformed_id_is_400 [OF h, of demo_world alice
        "\<lparr>in_title = None, in_description = None, in_completed = Some True\<rparr>"]
    by simp
qed

text \<open>
  C10. On the HTML-form surface the same malformed identifier, sent by a logged-in user
  to PUT, DELETE or PATCH, is answered 500 \<open>Server error\<close>: these handlers have no
  branch for the cast error. The API controllers answer 400 for it.
\<close>

theorem form_malformed_id_is_500:
  assumes "castObjectId e ident = None"
  shows "app_put_todo e w (Some usr) ident b = (res_status_json 500 (JError ''Server error''), w)
       \<and> app_delete_todo e w (Some usr) ident = (res_status_json 500 (JError ''Server error''), w)
       \<and> app_patch_todo_read e w (Some usr) ident
           = (res_status_json 500 (JError ''Server error''), w)
       \<and> status (fst (updateTodo e w u ident b)) = 400
       \<and> status (fst (deleteTodo e w u ident)) = 400
       \<and> status (fst (markAsRead e w u ident)) = 400"
  using assms
  by (simp add: app_put_todo_def app_delete_todo_def app_patch_todo_read_def
      updateTodo_def deleteTodo_def markAsRead_def Todo_findOne_def
      Todo_findOneAndDelete_def catch_invalid_id_def res_status_json_def)

theorem form_malformed_id_is_500_witness:
  "castObjectId demo_env ''zzz'' = None
   \<and> app_put_todo demo_env demo_world (Some \<lparr>user_id = 1, username = ''alice''\<rparr>) ''zzz''
         \<lparr>in_title = None, in_description = None, in_completed = Some True\<rparr>
       = (res_status_json 500 (JError ''Server error''), demo_world)
   \<and> status (fst (updateTodo demo_env demo_world alice ''zzz''
         \<lparr>in_title = None, in_description = None, in_completed = Some True\<rparr>)) = 400"
proof -
  have h: "castObjectId demo_env ''zzz'' = None"
    by (simp add: demo_env_def hex24_def hex_digit_def)
  show ?thesis
    using h form_malformed_id_is_500 [OF h, of demo_world "\<lparr>user_id = 1, username = ''alice''\<rparr>"
        "\<lparr>in_title = None, in_description = None, in_completed = Some True\<rparr>" alice]
    by simp
qed

section \<open>Create\<close>

text \<open>
  C2. For a request that passed the \<open>auth\<close> middleware, Create with a missing or empty
  title answers 400 \<open>Title is required\<close> and leaves the store as it was. With a
  non-empty title it answers 201 with the new record, and the store gains exactly that
  record: the given title, the given description (empty when absent), \<open>read\<close> and
  \<open>completed\<close> false, and as owner the user the caller's token names.
\<close>

theorem create_validates_and_initialises:
  assumes "auth e w h = Next u"
  shows "(in_title b = None \<or> in_title b = Some [] \<longrightarrow>
            todoRoutes e w h (POST_todos b)
              = (res_status_json 400 (JError ''Title is required''), w))
       \<and> (\<forall>ttl. in_title b = Some ttl \<and> ttl \<noteq> [] \<longrightarrow>
            (\<exists>uid usr. castObjectId e (claim_id u) = Some uid
               \<and> find (\<lambda>x. user_id x = uid) (users w) = Some usr
               \<and> todoRoutes e w h (POST_todos b)
                   = (res_status_json 201
                        (JTodo \<lparr>todo_id = next_oid w, title = ttl,
                                description = (case in_description b of None \<Rightarrow> [] | Some d \<Rightarrow> d),
                                read = False, completed = False, user = uid,
                                createdAt = now e, updatedAt = now e\<rparr>),
                      w\<lparr>todos := todos w @
                           [\<lparr>todo_id = next_oid w, title = ttl,
                             description = (case in_description b of None \<Rightarrow> [] | Some d \<Rightarrow> d),
                             read = False, completed = False, user = uid,
                             createdAt = now e, updatedAt = now e\<rparr>],
                         next_oid := Suc (next_oid w)\<rparr>)))"
proof -
  obtain i usr where c: "castObjectId e (claim_id u) = Some i"
    and f: "find (\<lambda>x. user_id x = i) (users w) = Some usr"
    using auth_Next [OF assms] by blast
  have r: "todoRoutes e w h (POST_todos b) = createTodo e w u b"
    using assms by (simp add: todoRoutes_def)
  have missing: "in_title b = None \<or> in_title b = Some [] \<longrightarrow>
      createTodo e w u b = (res_status_json 400 (JError ''Title is required''), w)"
    by (auto simp: createTodo_def)
  have given: "\<And>ttl. in_title b = Some ttl \<Longrightarrow> ttl \<noteq> [] \<Longrightarrow>
      createTodo e w u b
        = (res_status_json 201
             (JTodo \<lparr>todo_id = next_oid w, title = ttl,
                     description = (case in_description b of None \<Rightarrow> [] | Some d \<Rightarrow> d),
                     read = False, completed = False, user = i,
                     createdAt = now e, updatedAt = now e\<rparr>),
           w\<lparr>todos := todos w @
                [\<lparr>todo_id = next_oid w, title = ttl,
                  description = (case in_description b of None \<Rightarrow> [] | Some d \<Rightarrow> d),
                  read = False, completed = False, user = i,
                  createdAt = now e, updatedAt = now e\<rparr>],
              next_oid := Suc (next_oid w)\<rparr>)"
    using c by (simp add: createTodo_def Todo_create_def Let_def split: option.splits)
  show ?thesis
    using r missing given c f by auto
qed

theorem create_validates_and_initialises_witness:
  "auth demo_env demo_world (Some ''Bearer tok-alice'') = Next alice
   \<and> todoRoutes demo_env demo_world (Some ''Bearer tok-alice'')
         (POST_todos \<lparr>in_title = Some [], in_description = Some ''x'', in_completed = None\<rparr>)
       = (res_status_json 400 (JError ''Title is required''), demo_world)
   \<and> todoRoutes demo_env demo_world (Some ''Bearer tok-alice'')
         (POST_todos \<lparr>in_title = Some ''Buy eggs'', in_description = None, in_completed = None\<rparr>)
       = (res_status_json 201
            (JTodo \<lparr>todo_id = 18, title = ''Buy eggs'', description = [], read = False,
                    completed = False, user = 1, createdAt = 50, updatedAt = 50\<rparr>),
          demo_world\<lparr>todos := [milk, rent,
              \<lparr>todo_id = 18, title = ''Buy eggs'', description = [], read = False,
               completed = False, user = 1, createdAt = 50, updatedAt = 50\<rparr>],
            next_oid := 19\<rparr>)"
proof -
  have h: "auth demo_env demo_world (Some ''Bearer tok-alice'') = Next alice"
    by (simp add: auth_def header_token_def jwt_verify_def User_findById_def demo_env_def
        demo_check_def demo_world_def alice_def hex24_def hex_digit_def)
  have c: "castObjectId demo_env (claim_id alice) = Some 1"
    by (simp add: demo_env_def alice_def hex24_def hex_digit_def)
  have w: "next_oid demo_world = 18" "todos demo_world = [milk, rent]" "now demo_env = 50"
    by (simp_all add: demo_world_def demo_env_def)
  show ?thesis
    using h c w
      create_validates_and_initialises [OF h,
        of "\<lparr>in_title = Some [], in_description = Some ''x'', in_completed = None\<rparr>"]
      create_validates_and_initialises [OF h,
        of "\<lparr>in_title = Some ''Buy eggs'', in_description = None, in_completed = None\<rparr>"]
    by auto
qed

section \<open>Update\<close>

text \<open>
  C3, as amended. For a todo matching the (id, owner) lookup and an Update input whose
  title is absent or non-empty: the fields among title, description and completed that
  the input holds are overwritten with its values, the others keep theirs; \<open>read\<close>,
  the owner, the identifier and the creation time are unchanged; the stored record is the
  one returned, and no other record changes.
\<close>

theorem update_overwrites_present_fields:
  assumes "store_ok w"
    and "t \<in> set (todos w)"
    and "castObjectId e ident = Some (todo_id t)"
    and "castObjectId e (claim_id u) = Some (user t)"
    and "in_title b \<noteq> Some []"
  shows "\<exists>saved.
           fst (updateTodo e w u ident b) = res_json (JTodo saved)
         \<and> stored (snd (updateTodo e w u ident b)) (todo_id t) = Some saved
         \<and> title saved = (case in_title b of None \<Rightarrow> title t | Some x \<Rightarrow> x)
         \<and> description saved = (case in_description b of None \<Rightarrow> description t | Some x \<Rightarrow> x)
         \<and> completed saved = (case in_completed b of None \<Rightarrow> completed t | Some x \<Rightarrow> x)
         \<and> read saved = read t
         \<and> user saved = user t
         \<and> todo_id saved = todo_id t
         \<and> createdAt saved = createdAt t
         \<and> (\<forall>j. j \<noteq> todo_id t \<longrightarrow> stored (snd (updateTodo e w u ident b)) j = stored w j)"
proof -
  let ?d = "apply_input b t"
  let ?s = "if ?d = t then ?d else ?d\<lparr>updatedAt := now e\<rparr>"
  let ?w = "if ?d = t then w
            else w\<lparr>todos := updateOne (todo_id ?d) (?d\<lparr>updatedAt := now e\<rparr>) (todos w)\<rparr>"
  have d: "distinct (map todo_id (todos w))"
    using assms(1) by (simp add: store_ok_def)
  have found: "Todo_findOne (todos w) (castObjectId e ident) (castObjectId e (claim_id u))
                 = Inr (Some t)"
    using assms(3,4) find_owned [OF d assms(2)] by (simp add: Todo_findOne_def)
  have flds: "todo_id ?d = todo_id t" "read ?d = read t" "user ?d = user t"
    "createdAt ?d = createdAt t"
    "title ?d = (case in_title b of None \<Rightarrow> title t | Some x \<Rightarrow> x)"
    "description ?d = (case in_description b of None \<Rightarrow> description t | Some x \<Rightarrow> x)"
    "completed ?d = (case in_completed b of None \<Rightarrow> completed t | Some x \<Rightarrow> x)"
    using apply_input_fields [of b t] by simp_all
  have valid: "\<not> (title ?d \<noteq> title t \<and> title ?d = [])"
    using assms(5) flds(5) by (cases "in_title b") auto
  have run: "updateTodo e w u ident b = (res_json (JTodo ?s), ?w)"
    using found Todo_save_result [OF valid, of w "now e"] by (simp add: updateTodo_def)
  have st: "stored ?w (todo_id t) = Some ?s"
    by (rule stored_after_save(1) [OF d assms(2) flds(1)])
  have oth: "\<And>j. j \<noteq> todo_id t \<Longrightarrow> stored ?w j = stored w j"
    by (rule stored_after_save(2) [OF d assms(2) flds(1)])
  have r1: "fst (updateTodo e w u ident b) = res_json (JTodo ?s)"
    using run by simp
  have r2: "stored (snd (updateTodo e w u ident b)) (todo_id t) = Some ?s"
    using run st by simp
  have r3: "\<forall>j. j \<noteq> todo_id t \<longrightarrow> stored (snd (updateTodo e w u ident b)) j = stored w j"
    using run oth by simp
  have same: "title ?s = title ?d" "description ?s = description ?d"
    "completed ?s = completed ?d" "read ?s = read ?d" "user ?s = user ?d"
    "todo_id ?s = todo_id ?d" "createdAt ?s = createdAt ?d"
    by simp_all
  have f: "title ?s = (case in_title b of None \<Rightarrow> title t | Some x \<Rightarrow> x)"
    "description ?s = (case in_description b of None \<Rightarrow> description t | Some x \<Rightarrow> x)"
    "completed ?s = (case in_completed b of None \<Rightarrow> completed t | Some x \<Rightarrow> x)"
    "read ?s = read t" "user ?s = user t" "todo_id ?s = todo_id t" "createdAt ?s = createdAt t"
    unfolding same by (rule flds)+
  show ?thesis
    by (intro exI [of _ ?s] conjI r1 r2 r3 f)
qed

theorem update_overwrites_present_fields_witness:
  "store_ok demo_world
   \<and> milk \<in> set (todos demo_world)
   \<and> castObjectId demo_env ''000000000000000000000010'' = Some (todo_id milk)
   \<and> castObjectId demo_env (claim_id alice) = Some (user milk)
   \<and> in_title \<lparr>in_title = None, in_description = None, in_completed = Some True\<rparr> \<noteq> Some []
   \<and> fst (updateTodo demo_env demo_world alice ''000000000000000000000010''
            \<lparr>in_title = None, in_description = None, in_completed = Some True\<rparr>)
       = res_json (JTodo \<lparr>todo_id = 16, title = ''Buy milk'', description = [], read = False,
                          completed = True, user = 1, createdAt = 10, updatedAt = 50\<rparr>)
   \<and> stored (snd (updateTodo demo_env demo_world alice ''000000000000000000000010''
            \<lparr>in_title = None, in_description = None, in_completed = Some True\<rparr>)) 16
       = Some \<lparr>todo_id = 16, title = ''Buy milk'', description = [], read = False,
               completed = True, user = 1, createdAt = 10, updatedAt = 50\<rparr>
   \<and> stored (snd (updateTodo demo_env demo_world alice ''000000000000000000000010''
            \<lparr>in_title = None, in_description = None, in_completed = Some True\<rparr>)) 17
       = Some rent"
proof -
  have h1: "store_ok demo_world"
    by (simp add: store_ok_def demo_world_def milk_def rent_def)
  have h2: "milk \<in> set (todos demo_world)"
    by (simp add: demo_world_def)
  have h3: "castObjectId demo_env ''000000000000000000000010'' = Some (todo_id milk)"
    by (simp add: demo_env_def hex24_def hex_digit_def milk_def)
  have h4: "castObjectId demo_env (claim_id alice) = Some (user milk)"
    by (simp add: demo_env_def hex24_def hex_digit_def alice_def milk_def)
  have h5: "in_title \<lparr>in_title = None, in_description = None, in_completed = Some True\<rparr> \<noteq> Some []"
    by simp
  have ev: "updateTodo demo_env demo_world alice ''000000000000000000000010''
              \<lparr>in_title = None, in_description = None, in_completed = Some True\<rparr>
            = (res_json (JTodo \<lparr>todo_id = 16, title = ''Buy milk'', description = [],
                   read = False, completed = True, user = 1, createdAt = 10, updatedAt = 50\<rparr>),
               demo_world\<lparr>todos := [\<lparr>todo_id = 16, title = ''Buy milk'', description = [],
                   read = False, completed = True, user = 1, createdAt = 10, updatedAt = 50\<rparr>,
                   rent]\<rparr>)"
    by (simp add: updateTodo_def Todo_findOne_def Todo_save_def apply_input_def Let_def
        demo_env_def hex24_def hex_digit_def alice_def demo_world_def milk_def rent_def)
  show ?thesis
    using h1 h2 h3 h4 h5 ev update_overwrites_present_fields [OF h1 h2 h3 h4 h5]
    by (simp add: stored_def rent_def)
qed

text \<open>
  The claim as stated speaks of every Update input. An input whose title is the empty
  string is not written: the schema requires the title, \<open>save()\<close> throws a validation
  error, and the controller answers 500 with the record as it was.
\<close>

theorem update_empty_title_counterexample:
  "store_ok demo_world
   \<and> milk \<in> set (todos demo_world)
   \<and> castObjectId demo_env ''000000000000000000000010'' = Some (todo_id milk)
   \<and> castObjectId demo_env (claim_id alice) = Some (user milk)
   \<and> title milk = ''Buy milk''
   \<and> updateTodo demo_env demo_world alice ''000000000000000000000010''
         \<lparr>in_title = Some [], in_description = None, in_completed = None\<rparr>
       = (res_status_json 500 (JError ''Server error''), demo_world)
   \<and> stored demo_world (todo_id milk) = Some milk"
  by (simp add: store_ok_def updateTodo_def Todo_findOne_def Todo_save_def apply_input_def
      Let_def catch_invalid_id_def stored_def demo_env_def hex24_def hex_digit_def alice_def
      demo_world_def milk_def rent_def)

section \<open>Mark as read\<close>

text \<open>
  C6. MarkRead on a todo matching the (id, owner) lookup answers 200 with the record, its
  \<open>read\<close> flag true whatever it was before; the stored record is that one. A second
  MarkRead on the same id by the same owner answers 200 with the same record and leaves
  the store as the first call left it.
\<close>

theorem markAsRead_idempotent:
  assumes "store_ok w"
    and "t \<in> set (todos w)"
    and "castObjectId e ident = Some (todo_id t)"
    and "castObjectId e (claim_id u) = Some (user t)"
    and "castObjectId e2 ident = Some (todo_id t)"
    and "castObjectId e2 (claim_id u) = Some (user t)"
  shows "\<exists>s. fst (markAsRead e w u ident) = res_json (JTodo s)
           \<and> read s
           \<and> stored (snd (markAsRead e w u ident)) (todo_id t) = Some s
           \<and> markAsRead e2 (snd (markAsRead e w u ident)) u ident
               = (res_json (JTodo s), snd (markAsRead e w u ident))"
proof -
  let ?d = "t\<lparr>read := True\<rparr>"
  let ?s = "if ?d = t then ?d else ?d\<lparr>updatedAt := now e\<rparr>"
  let ?w = "if ?d = t then w
            else w\<lparr>todos := updateOne (todo_id ?d) (?d\<lparr>updatedAt := now e\<rparr>) (todos w)\<rparr>"
  have d: "distinct (map todo_id (todos w))"
    using assms(1) by (simp add: store_ok_def)
  have found: "Todo_findOne (todos w) (castObjectId e ident) (castObjectId e (claim_id u))
                 = Inr (Some t)"
    using assms(3,4) find_owned [OF d assms(2)] by (simp add: Todo_findOne_def)
  have valid: "\<not> (title ?d \<noteq> title t \<and> title ?d = [])"
    by simp
  have run1: "markAsRead e w u ident = (res_json (JTodo ?s), ?w)"
    using found Todo_save_result [OF valid, of w "now e"] by (simp add: markAsRead_def)
  have idd: "todo_id ?d = todo_id t"
    by simp
  have st: "stored ?w (todo_id t) = Some ?s"
    by (rule stored_after_save(1) [OF d assms(2) idd])
  have rd: "read ?s"
  proof (cases "?d = t")
    case True
    have "read ?d" by simp
    then have "read t" by (simp only: True)
    then show ?thesis by simp
  next
    case False
    then show ?thesis by simp
  qed
  have ids: "todo_id ?s = todo_id t" "user ?s = user t"
    by simp_all
  have d': "distinct (map todo_id (todos ?w))"
    using d by (simp add: map_id_updateOne)
  have mem: "?s \<in> set (todos ?w)"
    by (rule find_mem [OF st [unfolded stored_def]])
  have found2: "Todo_findOne (todos ?w) (castObjectId e2 ident) (castObjectId e2 (claim_id u))
                 = Inr (Some ?s)"
    using assms(5,6) find_owned [OF d' mem] ids by (simp add: Todo_findOne_def)
  have again: "?s\<lparr>read := True\<rparr> = ?s"
    by simp
  have run2: "markAsRead e2 ?w u ident = (res_json (JTodo ?s), ?w)"
    using found2 again by (simp add: markAsRead_def Todo_save_def)
  have r1: "fst (markAsRead e w u ident) = res_json (JTodo ?s)"
    using run1 by simp
  have r2: "stored (snd (markAsRead e w u ident)) (todo_id t) = Some ?s"
    using run1 st by simp
  have r3: "markAsRead e2 (snd (markAsRead e w u ident)) u ident
      = (res_json (JTodo ?s), snd (markAsRead e w u ident))"
    using run1 run2 by simp
  show ?thesis
    by (intro exI [of _ ?s] conjI r1 rd r2 r3)
qed

theorem markAsRead_idempotent_witness:
  "store_ok demo_world
   \<and> milk \<in> set (todos demo_world)
   \<and> castObjectId demo_env ''000000000000000000000010'' = Some (todo_id milk)
   \<and> castObjectId demo_env (claim_id alice) = Some (user milk)
   \<and> fst (markAsRead demo_env demo_world alice ''000000000000000000000010'')
       = res_json (JTodo \<lparr>todo_id = 16, title = ''Buy milk'', description = [], read = True,
                          completed = False, user = 1, createdAt = 10, updatedAt = 50\<rparr>)
   \<and> markAsRead demo_env
         (snd (markAsRead demo_env demo_world alice ''000000000000000000000010''))
         alice ''000000000000000000000010''
       = (res_json (JTodo \<lparr>todo_id = 16, title = ''Buy milk'', description = [], read = True,
                           completed = False, user = 1, createdAt = 10, updatedAt = 50\<rparr>),
          snd (markAsRead demo_env demo_world alice ''000000000000000000000010''))"
proof -
  have h1: "store_ok demo_world"
    by (simp add: store_ok_def demo_world_def milk_def rent_def)
  have h2: "milk \<in> set (todos demo_world)"
    by (simp add: demo_world_def)
  have h3: "castObjectId demo_env ''000000000000000000000010'' = Some (todo_id milk)"
    by (simp add: demo_env_def hex24_def hex_digit_def milk_def)
  have h4: "castObjectId demo_env (claim_id alice) = Some (user milk)"
    by (simp add: demo_env_def hex24_def hex_digit_def alice_def milk_def)
  have ev: "fst (markAsRead demo_env demo_world alice ''000000000000000000000010'')
      = res_json (JTodo \<lparr>todo_id = 16, title = ''Buy milk'', description = [], read = True,
                         completed = False, user = 1, createdAt = 10, updatedAt = 50\<rparr>)"
    by (simp add: markAsRead_def Todo_findOne_def Todo_save_def Let_def
        demo_env_def hex24_def hex_digit_def alice_def demo_world_def milk_def rent_def)
  obtain s where s: "fst (markAsRead demo_env demo_world alice ''000000000000000000000010'')
        = res_json (JTodo s)"
      "markAsRead demo_env
         (snd (markAsRead demo_env demo_world alice ''000000000000000000000010''))
         alice ''000000000000000000000010''
       = (res_json (JTodo s),
          snd (markAsRead demo_env demo_world alice ''000000000000000000000010''))"
    using markAsRead_idempotent [OF h1 h2 h3 h4 h3 h4] by blast
  have "s = \<lparr>todo_id = 16, title = ''Buy milk'', description = [], read = True,
             completed = False, user = 1, createdAt = 10, updatedAt = 50\<rparr>"
    using s(1) ev by (simp add: res_json_def res_status_json_def)
  then show ?thesis
    using h1 h2 h3 h4 ev s(2) by simp
qed

section \<open>Delete\<close>

text \<open>
  C7. Delete on a todo matching the (id, owner) lookup answers 200 and removes that
  record and no other. After any sequence of later requests the identifier appears in no
  List, for any caller, and a Delete of it answers 404 and changes nothing. In general a
  Delete whose (id, owner) lookup matches nothing answers 404 and changes nothing.
\<close>

theorem delete_removes_for_good:
  assumes "store_ok w"
    and "t \<in> set (todos w)"
    and "castObjectId e ident = Some (todo_id t)"
    and "castObjectId e (claim_id u) = Some (user t)"
  shows "fst (deleteTodo e w u ident) = res_json (JMessage ''Todo deleted successfully'')
       \<and> stored (snd (deleteTodo e w u ident)) (todo_id t) = None
       \<and> (\<forall>j. j \<noteq> todo_id t \<longrightarrow> stored (snd (deleteTodo e w u ident)) j = stored w j)
       \<and> (\<forall>rs e2 u2. todo_id t \<notin> todo_id `
             set (listed (fst (getTodos e2 (run (snd (deleteTodo e w u ident)) rs) u2))))
       \<and> (\<forall>rs e2 u2 ident2.
             castObjectId e2 ident2 = Some (todo_id t) \<and> castObjectId e2 (claim_id u2) \<noteq> None \<longrightarrow>
             deleteTodo e2 (run (snd (deleteTodo e w u ident)) rs) u2 ident2
               = (res_status_json 404 (JError ''Todo not found''),
                  run (snd (deleteTodo e w u ident)) rs))
       \<and> (\<forall>e0 w0 u0 ident0.
             Todo_findOne (todos w0) (castObjectId e0 ident0) (castObjectId e0 (claim_id u0))
               = Inr None \<longrightarrow>
             deleteTodo e0 w0 u0 ident0 = (res_status_json 404 (JError ''Todo not found''), w0))"
proof -
  let ?P = "\<lambda>x. todo_id x = todo_id t \<and> user x = user t"
  let ?w = "w\<lparr>todos := deleteFirst ?P (todos w)\<rparr>"
  have d: "distinct (map todo_id (todos w))"
    and lt: "todo_id t < next_oid w"
    using assms(1,2) by (simp_all add: store_ok_def list_all_iff)
  have run: "deleteTodo e w u ident = (res_json (JMessage ''Todo deleted successfully''), ?w)"
    using assms(3,4) find_owned [OF d assms(2)]
    by (simp add: deleteTodo_def Todo_findOneAndDelete_def)
  have out: "todo_id t \<notin> todo_id ` set (todos ?w)"
    using deleteFirst_removes [OF d assms(2)] by simp
  have c1: "fst (deleteTodo e w u ident) = res_json (JMessage ''Todo deleted successfully'')"
    using run by simp
  have c2: "stored (snd (deleteTodo e w u ident)) (todo_id t) = None"
    using run find_id_absent [OF out] by (simp add: stored_def)
  have c3: "\<forall>j. j \<noteq> todo_id t \<longrightarrow> stored (snd (deleteTodo e w u ident)) j = stored w j"
  proof (intro allI impI)
    fix j assume "j \<noteq> todo_id t"
    then have "find (\<lambda>x. todo_id x = j) (deleteFirst ?P (todos w))
        = find (\<lambda>x. todo_id x = j) (todos w)"
      by (intro find_deleteFirst_other) simp
    then show "stored (snd (deleteTodo e w u ident)) j = stored w j"
      using run by (simp add: stored_def)
  qed
  have later: "\<And>rs. todo_id t \<notin> todo_id ` set (todos (run ?w rs))"
    using run_keeps_gone [of "todo_id t" ?w] lt out by simp
  have c4: "\<forall>rs e2 u2. todo_id t \<notin> todo_id `
      set (listed (fst (getTodos e2 (run (snd (deleteTodo e w u ident)) rs) u2)))"
    using later listed_getTodos run by (fastforce simp: image_iff)
  have c5: "\<forall>rs e2 u2 ident2.
      castObjectId e2 ident2 = Some (todo_id t) \<and> castObjectId e2 (claim_id u2) \<noteq> None \<longrightarrow>
      deleteTodo e2 (run (snd (deleteTodo e w u ident)) rs) u2 ident2
        = (res_status_json 404 (JError ''Todo not found''),
           run (snd (deleteTodo e w u ident)) rs)"
  proof (intro allI impI)
    fix rs and e2 :: env and u2 :: claims and ident2
    assume a: "castObjectId e2 ident2 = Some (todo_id t) \<and> castObjectId e2 (claim_id u2) \<noteq> None"
    then obtain x where x: "castObjectId e2 (claim_id u2) = Some x" by auto
    have "find (\<lambda>y. todo_id y = todo_id t \<and> user y = x) (todos (run ?w rs)) = None"
      using later [of rs] by (rule find_absent)
    then show "deleteTodo e2 (run (snd (deleteTodo e w u ident)) rs) u2 ident2
        = (res_status_json 404 (JError ''Todo not found''),
           run (snd (deleteTodo e w u ident)) rs)"
      using a x run by (simp add: deleteTodo_def Todo_findOneAndDelete_def)
  qed
  have c6: "\<forall>e0 w0 u0 ident0.
      Todo_findOne (todos w0) (castObjectId e0 ident0) (castObjectId e0 (claim_id u0))
        = Inr None \<longrightarrow>
      deleteTodo e0 w0 u0 ident0 = (res_status_json 404 (JError ''Todo not found''), w0)"
    by (auto simp: deleteTodo_def Todo_findOne_def Todo_findOneAndDelete_def
        split: option.splits)
  show ?thesis
    by (intro conjI c1 c2 c3 c4 c5 c6)
qed

theorem delete_removes_for_good_witness:
  "store_ok demo_world
   \<and> milk \<in> set (todos demo_world)
   \<and> castObjectId demo_env ''000000000000000000000010'' = Some (todo_id milk)
   \<and> castObjectId demo_env (claim_id alice) = Some (user milk)
   \<and> fst (deleteTodo demo_env demo_world alice ''000000000000000000000010'')
       = res_json (JMessage ''Todo deleted successfully'')
   \<and> stored (snd (deleteTodo demo_env demo_world alice ''000000000000000000000010''))
         (todo_id milk) = None
   \<and> todo_id milk \<notin> todo_id ` set (listed (fst (getTodos demo_env
         (run (snd (deleteTodo demo_env demo_world alice ''000000000000000000000010''))
            [(demo_env, \<lparr>authorization = Some ''Bearer tok-alice'', cookie_token = None,
                target = Api (POST_todos \<lparr>in_title = Some ''Buy eggs'', in_description = None,
                                           in_completed = None\<rparr>)\<rparr>)])
         alice)))
   \<and> deleteTodo demo_env
         (run (snd (deleteTodo demo_env demo_world alice ''000000000000000000000010'')) [])
         alice ''000000000000000000000010''
       = (res_status_json 404 (JError ''Todo not found''),
          run (snd (deleteTodo demo_env demo_world alice ''000000000000000000000010'')) [])"
proof -
  have h1: "store_ok demo_world"
    by (simp add: store_ok_def demo_world_def milk_def rent_def)
  have h2: "milk \<in> set (todos demo_world)"
    by (simp add: demo_world_def)
  have h3: "castObjectId demo_env ''000000000000000000000010'' = Some (todo_id milk)"
    by (simp add: demo_env_def hex24_def hex_digit_def milk_def)
  have h4: "castObjectId demo_env (claim_id alice) = Some (user milk)"
    by (simp add: demo_env_def hex24_def hex_digit_def alice_def milk_def)
  note T = delete_removes_for_good [OF h1 h2 h3 h4]
  have c1: "fst (deleteTodo demo_env demo_world alice ''000000000000000000000010'')
      = res_json (JMessage ''Todo deleted successfully'')"
    using T by (rule conjunct1)
  have c2: "stored (snd (deleteTodo demo_env demo_world alice ''000000000000000000000010''))
      (todo_id milk) = None"
    using T by (elim conjE)
  have c4: "\<forall>rs e2 u2. todo_id milk \<notin> todo_id ` set (listed (fst (getTodos e2
      (run (snd (deleteTodo demo_env demo_world alice ''000000000000000000000010'')) rs) u2)))"
    using T by (elim conjE)
  have c5: "\<forall>rs e2 u2 ident2.
      castObjectId e2 ident2 = Some (todo_id milk) \<and> castObjectId e2 (claim_id u2) \<noteq> None \<longrightarrow>
      deleteTodo e2 (run (snd (deleteTodo demo_env demo_world alice
          ''000000000000000000000010'')) rs) u2 ident2
        = (res_status_json 404 (JError ''Todo not found''),
           run (snd (deleteTodo demo_env demo_world alice ''000000000000000000000010'')) rs)"
    using T by (elim conjE)
  have h5: "castObjectId demo_env (claim_id alice) \<noteq> None"
    using h4 by simp
  show ?thesis
    using h1 h2 h3 h4 c1 c2 c4 [rule_format] c5 [rule_format, OF conjI [OF h3 h5]]
    by (intro conjI) assumption+
qed

section \<open>Authentication\<close>

text \<open>
  C4, as amended. On the bearer-token path each of these causes of failure has its own
  401 answer: no token (no header, or a header without a second piece) \<open>No token
  provided, authorization denied\<close>; a malformed token or a bad signature
  \<open>Invalid token\<close>; an expired token \<open>Token expired\<close>; a verified token for which
  the user lookup finds nobody \<open>User not found\<close>. The four messages differ. Whatever
  else is thrown inside the \<open>try\<close> block falls to the last line of the \<open>catch\<close>
  block and is answered 500 \<open>Server error\<close>: a verified token whose user lookup itself
  throws, and a token that is not yet valid. In every one of these cases the router
  answers with the middleware's response whatever the route, and the store is returned
  as it was: no controller runs.
\<close>

theorem auth_failure_outcomes:
  "header_token None = None
   \<and> (header_token h = None \<or> header_token h = Some [] \<longrightarrow>
        todoRoutes e w h r
          = (res_status_json 401 (JError ''No token provided, authorization denied''), w))
   \<and> (header_token h = Some tok \<and> tok \<noteq> []
        \<and> (jwt_check e tok = Malformed \<or> jwt_check e tok = InvalidSignature) \<longrightarrow>
        todoRoutes e w h r = (res_status_json 401 (JError ''Invalid token''), w))
   \<and> (header_token h = Some tok \<and> tok \<noteq> [] \<and> jwt_check e tok = Expired \<longrightarrow>
        todoRoutes e w h r = (res_status_json 401 (JError ''Token expired''), w))
   \<and> (header_token h = Some tok \<and> tok \<noteq> [] \<and> jwt_check e tok = Verified c
        \<and> User_findById e (users w) (claim_id c) = Inr None \<longrightarrow>
        todoRoutes e w h r = (res_status_json 401 (JError ''User not found''), w))
   \<and> distinct [JError ''No token provided, authorization denied'', JError ''Invalid token'',
                JError ''Token expired'', JError ''User not found'']
   \<and> (header_token h = Some tok \<and> tok \<noteq> [] \<and> jwt_check e tok = Verified c
        \<and> User_findById e (users w) (claim_id c) = Inl err \<longrightarrow>
        todoRoutes e w h r = (res_status_json 500 (JError ''Server error''), w))
   \<and> (header_token h = Some tok \<and> tok \<noteq> [] \<and> jwt_check e tok = NotActive \<longrightarrow>
        todoRoutes e w h r = (res_status_json 500 (JError ''Server error''), w))"
proof -
  have thrown: "User_findById e (users w) (claim_id c) = Inl err \<Longrightarrow> err = CastError"
    by (simp add: User_findById_def split: option.splits)
  show ?thesis
    using thrown
    by (auto simp: todoRoutes_def auth_def jwt_verify_def auth_catch_def header_token_def)
qed

theorem auth_failure_outcomes_witness:
  "header_token (Some ''Bearer tok-forged'') = Some ''tok-forged''
   \<and> jwt_check demo_env ''tok-forged'' = InvalidSignature
   \<and> header_token (Some ''Bearer tok-old'') = Some ''tok-old''
   \<and> jwt_check demo_env ''tok-old'' = Expired
   \<and> header_token (Some ''Bearer tok-ghost'') = Some ''tok-ghost''
   \<and> jwt_check demo_env ''tok-ghost'' = Verified ghost
   \<and> User_findById demo_env (users demo_world) (claim_id ghost) = Inr None
   \<and> header_token (Some ''Bearer tok-stray'') = Some ''tok-stray''
   \<and> jwt_check demo_env ''tok-stray'' = Verified stray
   \<and> User_findById demo_env (users demo_world) (claim_id stray) = Inl CastError
   \<and> header_token (Some ''Bearer tok-early'') = Some ''tok-early''
   \<and> jwt_check demo_env ''tok-early'' = NotActive
   \<and> todoRoutes demo_env demo_world None (DELETE_todo ''000000000000000000000010'')
       = (res_status_json 401 (JError ''No token provided, authorization denied''), demo_world)
   \<and> todoRoutes demo_env demo_world (Some ''Bearer tok-forged'')
         (DELETE_todo ''000000000000000000000010'')
       = (res_status_json 401 (JError ''Invalid token''), demo_world)
   \<and> todoRoutes demo_env demo_world (Some ''Bearer tok-old'')
         (DELETE_todo ''000000000000000000000010'')
       = (res_status_json 401 (JError ''Token expired''), demo_world)
   \<and> todoRoutes demo_env demo_world (Some ''Bearer tok-ghost'')
         (DELETE_todo ''000000000000000000000010'')
       = (res_status_json 401 (JError ''User not found''), demo_world)
   \<and> todoRoutes demo_env demo_world (Some ''Bearer tok-stray'')
         (DELETE_todo ''000000000000000000000010'')
       = (res_status_json 500 (JError ''Server error''), demo_world)
   \<and> todoRoutes demo_env demo_world (Some ''Bearer tok-early'')
         (DELETE_todo ''000000000000000000000010'')
       = (res_status_json 500 (JError ''Server error''), demo_world)"
proof -
  have h1: "header_token (Some ''Bearer tok-forged'') = Some ''tok-forged''"
    and h2: "header_token (Some ''Bearer tok-old'') = Some ''tok-old''"
    and h3: "header_token (Some ''Bearer tok-ghost'') = Some ''tok-ghost''"
    and h4: "header_token (Some ''Bearer tok-stray'') = Some ''tok-stray''"
    and h5: "header_token (Some ''Bearer tok-early'') = Some ''tok-early''"
    by (simp_all add: header_token_def)
  have j1: "jwt_check demo_env ''tok-forged'' = InvalidSignature"
    and j2: "jwt_check demo_env ''tok-old'' = Expired"
    and j3: "jwt_check demo_env ''tok-ghost'' = Verified ghost"
    and j4: "jwt_check demo_env ''tok-stray'' = Verified stray"
    and j5: "jwt_check demo_env ''tok-early'' = NotActive"
    by (simp_all add: demo_env_def demo_check_def)
  have u: "User_findById demo_env (users demo_world) (claim_id ghost) = Inr None"
    by (simp add: User_findById_def demo_env_def demo_world_def ghost_def hex24_def
        hex_digit_def)
  have v: "User_findById demo_env (users demo_world) (claim_id stray) = Inl CastError"
    by (simp add: User_findById_def demo_env_def stray_def hex24_def)
  show ?thesis
    using h1 h2 h3 h4 h5 j1 j2 j3 j4 j5 u v
      auth_failure_outcomes [of None demo_env demo_world
        "DELETE_todo ''000000000000000000000010''" "[]" ghost CastError]
      auth_failure_outcomes [of "Some ''Bearer tok-forged''" demo_env demo_world
        "DELETE_todo ''000000000000000000000010''" "''tok-forged''" ghost CastError]
      auth_failure_outcomes [of "Some ''Bearer tok-old''" demo_env demo_world
        "DELETE_todo ''000000000000000000000010''" "''tok-old''" ghost CastError]
      auth_failure_outcomes [of "Some ''Bearer tok-ghost''" demo_env demo_world
        "DELETE_todo ''000000000000000000000010''" "''tok-ghost''" ghost CastError]
      auth_failure_outcomes [of "Some ''Bearer tok-stray''" demo_env demo_world
        "DELETE_todo ''000000000000000000000010''" "''tok-stray''" stray CastError]
      auth_failure_outcomes [of "Some ''Bearer tok-early''" demo_env demo_world
        "DELETE_todo ''000000000000000000000010''" "''tok-early''" ghost CastError]
    by simp
qed

text \<open>
  The claim as stated gives a 401 \<open>User not found\<close> to every valid token whose user
  cannot be resolved. A token that verifies but whose \<open>id\<close> is no ObjectId makes
  \<open>User.findById\<close> throw a cast error; its name is neither of the two the \<open>catch\<close>
  block looks for, and the answer is 500 \<open>Server error\<close>.
\<close>

theorem auth_lookup_throws_counterexample:
  "header_token (Some ''Bearer tok-stray'') = Some ''tok-stray''
   \<and> jwt_verify demo_env ''tok-stray'' = Inr stray
   \<and> User_findById demo_env (users demo_world) (claim_id stray) = Inl CastError
   \<and> auth demo_env demo_world (Some ''Bearer tok-stray'')
       = Respond (res_status_json 500 (JError ''Server error''))
   \<and> todoRoutes demo_env demo_world (Some ''Bearer tok-stray'') GET_todos
       = (res_status_json 500 (JError ''Server error''), demo_world)"
  by (simp add: todoRoutes_def auth_def auth_catch_def header_token_def jwt_verify_def
      User_findById_def demo_env_def demo_check_def stray_def hex24_def)

text \<open>
  C5. On the cookie path a token cookie that is malformed, wrongly signed or expired does
  not stop the request: the middleware calls \<open>next()\<close> with no identity attached and
  the cookie cleared, and the application's answer is that of the routes run without an
  identity. The same token in an \<open>Authorization\<close> header is answered 401 by the API's
  \<open>auth\<close> middleware, and the store is untouched.
\<close>

theorem cookie_path_fails_open:
  assumes "tok \<noteq> []"
    and "jwt_check e tok = Malformed \<or> jwt_check e tok = InvalidSignature
         \<or> jwt_check e tok = Expired"
  shows "cookie_jwt e w (Some tok) = Next \<lparr>req_user = None, cookie_cleared = True\<rparr>
       \<and> (cookie_token req = Some tok \<longrightarrow>
            app e w req = \<lparr>reply = fst (dispatch e w req None), clearCookie = True,
                           after = snd (dispatch e w req None)\<rparr>)
       \<and> (header_token h = Some tok \<longrightarrow>
            auth e w h = Respond (res_status_json 401
              (JError (if jwt_check e tok = Expired then ''Token expired'' else ''Invalid token'')))
            \<and> status (fst (todoRoutes e w h r)) = 401
            \<and> snd (todoRoutes e w h r) = w)"
proof -
  have c: "cookie_jwt e w (Some tok) = Next \<lparr>req_user = None, cookie_cleared = True\<rparr>"
    using assms by (auto simp: cookie_jwt_def jwt_verify_def)
  have a: "header_token h = Some tok \<Longrightarrow>
      auth e w h = Respond (res_status_json 401
        (JError (if jwt_check e tok = Expired then ''Token expired'' else ''Invalid token'')))"
    using assms by (auto simp: auth_def jwt_verify_def auth_catch_def)
  show ?thesis
    using c a by (auto simp: app_def split_beta todoRoutes_def res_status_json_def)
qed

theorem cookie_path_fails_open_witness:
  "''tok-old'' \<noteq> []
   \<and> jwt_check demo_env ''tok-old'' = Expired
   \<and> cookie_jwt demo_env demo_world (Some ''tok-old'')
       = Next \<lparr>req_user = None, cookie_cleared = True\<rparr>
   \<and> app demo_env demo_world
         \<lparr>authorization = None, cookie_token = Some ''tok-old'',
          target = PATCH_todo_read_form ''000000000000000000000010''\<rparr>
       = \<lparr>reply = res_status_json 401 (JError ''Unauthorized''), clearCookie = True,
          after = demo_world\<rparr>
   \<and> auth demo_env demo_world (Some ''Bearer tok-old'')
       = Respond (res_status_json 401 (JError ''Token expired''))"
proof -
  have h1: "''tok-old'' \<noteq> []"
    by simp
  have j: "jwt_check demo_env ''tok-old'' = Expired"
    by (simp add: demo_env_def demo_check_def)
  have h2: "jwt_check demo_env ''tok-old'' = Malformed
      \<or> jwt_check demo_env ''tok-old'' = InvalidSignature
      \<or> jwt_check demo_env ''tok-old'' = Expired"
    using j by simp
  have hd: "header_token (Some ''Bearer tok-old'') = Some ''tok-old''"
    by (simp add: header_token_def)
  have d: "dispatch demo_env demo_world
         \<lparr>authorization = None, cookie_token = Some ''tok-old'',
          target = PATCH_todo_read_form ''000000000000000000000010''\<rparr> None
       = (res_status_json 401 (JError ''Unauthorized''), demo_world)"
    by (simp add: dispatch_def app_patch_todo_read_def)
  show ?thesis
    using h1 j hd d
      cookie_path_fails_open [OF h1 h2, of demo_world
        "\<lparr>authorization = None, cookie_token = Some ''tok-old'',
          target = PATCH_todo_read_form ''000000000000000000000010''\<rparr>"
        "Some ''Bearer tok-old''" GET_todos]
    by simp
qed

text \<open>
  C9, as amended. On the cookie path, when the token verifies and the user lookup finds
  nobody, the request goes on with no identity attached and the cookie is not cleared.
  The cookie is cleared exactly when a non-empty token is present and something inside
  the \<open>try\<close> block throws: the verification, or the user lookup itself. Whenever the
  cookie is cleared no identity is attached. The middleware always calls \<open>next()\<close>.
\<close>

theorem cookie_cleared_only_on_throw:
  "(tok \<noteq> [] \<and> jwt_check e tok = Verified d
      \<and> User_findById e (users w) (claim_id d) = Inr None \<longrightarrow>
      cookie_jwt e w (Some tok) = Next \<lparr>req_user = None, cookie_cleared = False\<rparr>)
   \<and> (\<exists>c. cookie_jwt e w cookie = Next c
          \<and> (cookie_cleared c \<longleftrightarrow>
               (\<exists>t. cookie = Some t \<and> t \<noteq> []
                  \<and> ((\<exists>err. jwt_verify e t = Inl err)
                     \<or> (\<exists>dec err. jwt_verify e t = Inr dec
                           \<and> User_findById e (users w) (claim_id dec) = Inl err))))
          \<and> (cookie_cleared c \<longrightarrow> req_user c = None))"
  by (auto simp: cookie_jwt_def jwt_verify_def split: option.splits sum.splits jwt_result.splits)

theorem cookie_cleared_only_on_throw_witness:
  "''tok-ghost'' \<noteq> []
   \<and> jwt_check demo_env ''tok-ghost'' = Verified ghost
   \<and> User_findById demo_env (users demo_world) (claim_id ghost) = Inr None
   \<and> cookie_jwt demo_env demo_world (Some ''tok-ghost'')
       = Next \<lparr>req_user = None, cookie_cleared = False\<rparr>"
proof -
  have h1: "''tok-ghost'' \<noteq> []"
    by simp
  have j: "jwt_check demo_env ''tok-ghost'' = Verified ghost"
    by (simp add: demo_env_def demo_check_def)
  have u: "User_findById demo_env (users demo_world) (claim_id ghost) = Inr None"
    by (simp add: User_findById_def demo_env_def demo_world_def ghost_def hex24_def
        hex_digit_def)
  show ?thesis
    using h1 j u
      cookie_cleared_only_on_throw [of "''tok-ghost''" demo_env ghost demo_world
        "Some ''tok-ghost''"]
    by simp
qed

text \<open>
  The claim as stated says the cookie is cleared only when the verification throws. The
  \<open>try\<close> block also holds the user lookup: a token that verifies but whose \<open>id\<close> is
  no ObjectId makes \<open>User.findById\<close> throw a cast error, and the cookie is cleared.
\<close>

theorem cookie_cleared_after_verify_counterexample:
  "jwt_verify demo_env ''tok-stray'' = Inr stray
   \<and> User_findById demo_env (users demo_world) (claim_id stray) = Inl CastError
   \<and> cookie_jwt demo_env demo_world (Some ''tok-stray'')
       = Next \<lparr>req_user = None, cookie_cleared = True\<rparr>"
  by (simp add: cookie_jwt_def jwt_verify_def User_findById_def demo_env_def demo_check_def
      stray_def hex24_def)

end
